theory Spec2Isabelle
  imports Main
begin

section \<open>Python values and exceptions\<close>

text \<open>
  The program under verification is \<^verbatim>\<open>rippa.py\<close>.  Text is modelled as \<^typ>\<open>string\<close>;
  the character classes below are those of Python's \<^verbatim>\<open>str\<close> on ASCII text.  Every
  exception the program can meet is a value of \<open>error\<close>; a computation that may raise
  returns \<open>error + 'a\<close> with \<open>Inl\<close> for the exception.
\<close>

datatype error =
    CalledProcessError int
  | ExitCodeException int
  | OSError
  | AttributeError string
  | KeyError string
  | IndexError
  | ValueError

definition dq :: char where
  "dq = CHR 0x22"

definition nl :: char where
  "nl = CHR 0x0A"

definition quoted :: "string \<Rightarrow> string" where
  "quoted v = dq # v @ [dq]"

definition is_digit :: "char \<Rightarrow> bool" where
  "is_digit c = (let n = (of_char c :: nat) in 48 \<le> n \<and> n \<le> 57)"

definition is_word :: "char \<Rightarrow> bool" where
  "is_word c = (let n = (of_char c :: nat) in
     (48 \<le> n \<and> n \<le> 57) \<or> (65 \<le> n \<and> n \<le> 90) \<or> (97 \<le> n \<and> n \<le> 122) \<or> n = 95)"

definition is_space :: "char \<Rightarrow> bool" where
  "is_space c = (let n = (of_char c :: nat) in (9 \<le> n \<and> n \<le> 13) \<or> (28 \<le> n \<and> n \<le> 32))"

definition is_bytes_space :: "char \<Rightarrow> bool" where
  "is_bytes_space c = (let n = (of_char c :: nat) in (9 \<le> n \<and> n \<le> 13) \<or> n = 32)"

subsection \<open>\<^verbatim>\<open>str.split(sep)\<close>, \<^verbatim>\<open>str.split()\<close>, \<^verbatim>\<open>bytes.strip()\<close>, \<^verbatim>\<open>str.endswith\<close>\<close>

function split_from :: "string \<Rightarrow> string \<Rightarrow> string \<Rightarrow> string list" where
  "split_from sep cur [] = [cur]"
| "split_from sep cur (c # cs) =
     (if sep \<noteq> [] \<and> take (length sep) (c # cs) = sep
      then cur # split_from sep [] (drop (length sep) (c # cs))
      else split_from sep (cur @ [c]) cs)"
  by pat_completeness auto
termination
  by (relation "measure (\<lambda>(sep, cur, rest). length rest)") auto

definition split_on :: "string \<Rightarrow> string \<Rightarrow> string list" where
  "split_on sep s = split_from sep [] s"

fun split_ws_from :: "string \<Rightarrow> string \<Rightarrow> string list" where
  "split_ws_from cur [] = (if cur = [] then [] else [cur])"
| "split_ws_from cur (c # cs) =
     (if is_space c
      then (if cur = [] then split_ws_from [] cs else cur # split_ws_from [] cs)
      else split_ws_from (cur @ [c]) cs)"

definition split_ws :: "string \<Rightarrow> string list" where
  "split_ws s = split_ws_from [] s"

definition strip :: "string \<Rightarrow> string" where
  "strip s = rev (dropWhile is_bytes_space (rev (dropWhile is_bytes_space s)))"

definition endswith :: "string \<Rightarrow> string \<Rightarrow> bool" where
  "endswith s suffix = (length suffix \<le> length s \<and> drop (length s - length suffix) s = suffix)"

subsection \<open>\<^verbatim>\<open>int(str)\<close>\<close>

text \<open>
  \<^verbatim>\<open>int(s)\<close> in base 10: an optional sign, then decimal digits, single underscores
  allowed between digits; anything else raises \<^verbatim>\<open>ValueError\<close> (here \<open>None\<close>).
\<close>

definition digit_val :: "char \<Rightarrow> int" where
  "digit_val c = int (of_char c) - 48"

fun digits_from :: "int \<Rightarrow> string \<Rightarrow> int option" where
  "digits_from acc [] = Some acc"
| "digits_from acc [c] = (if is_digit c then Some (10 * acc + digit_val c) else None)"
| "digits_from acc (c # d # cs) =
     (if is_digit c then digits_from (10 * acc + digit_val c) (d # cs)
      else if c = CHR ''_'' \<and> is_digit d then digits_from (10 * acc + digit_val d) cs
      else None)"

definition unsigned_int :: "string \<Rightarrow> int option" where
  "unsigned_int s = (case s of [] \<Rightarrow> None
     | c # cs \<Rightarrow> if is_digit c then digits_from (digit_val c) cs else None)"

definition py_int :: "string \<Rightarrow> int option" where
  "py_int s = (case s of [] \<Rightarrow> None
     | c # cs \<Rightarrow> if c = CHR ''+'' then unsigned_int cs
                else if c = CHR ''-'' then map_option uminus (unsigned_int cs)
                else unsigned_int s)"

section \<open>Disc Identifier\<close>

subsection \<open>\<^verbatim>\<open>cdparanoia_hash\<close>\<close>

text \<open>
  The loop of \<^verbatim>\<open>cdparanoia_hash\<close> with its accumulator \<^verbatim>\<open>lengths\<close>: a line whose
  whitespace split does not have 8 fields is skipped, otherwise \<^verbatim>\<open>int(split[1])\<close> is
  appended, and a \<^verbatim>\<open>ValueError\<close> of \<^verbatim>\<open>int\<close> leaves the function.
\<close>

fun collect_lengths :: "int list \<Rightarrow> string list \<Rightarrow> error + int list" where
  "collect_lengths lengths [] = Inr lengths"
| "collect_lengths lengths (line # lines) =
     (let split = split_ws line in
      if length split \<noteq> 8 then collect_lengths lengths lines
      else (case py_int (split ! 1) of
              None \<Rightarrow> Inl ValueError
            | Some n \<Rightarrow> collect_lengths (lengths @ [n]) lines))"

definition slice_6_m2 :: "'a list \<Rightarrow> 'a list" where
  "slice_6_m2 xs = drop 6 (take (length xs - 2) xs)"

text \<open>
  Python's builtin \<^verbatim>\<open>hash\<close> on a tuple of ints is not code of this program: it is the
  parameter \<open>tuple_hash\<close>.
\<close>

definition cdparanoia_hash :: "(int list \<Rightarrow> int) \<Rightarrow> string \<Rightarrow> error + int" where
  "cdparanoia_hash tuple_hash cdp_str =
     (let lines = slice_6_m2 (split_on [nl] cdp_str) in
      case collect_lengths [] lines of
        Inl e \<Rightarrow> Inl e
      | Inr lengths \<Rightarrow> Inr (tuple_hash lengths))"



subsection \<open>\<^verbatim>\<open>parse_blkid_params\<close> and \<^verbatim>\<open>parse_blkid\<close>\<close>

text \<open>
  One attempt of the pattern \<^verbatim>\<open>(\w+)="([^"]+)"\<close> at the head of the text.  Both
  repetitions are greedy and are followed by a character outside their class, so the
  longest run is the only candidate: a shorter one is followed by a character of the
  class, never by \<^verbatim>\<open>=\<close> or by the closing quote.  The result is the two groups and
  the text after the match.
\<close>

definition match_here :: "string \<Rightarrow> (string \<times> string \<times> string) option" where
  "match_here s =
     (let key = takeWhile is_word s; r1 = dropWhile is_word s in
      if key = [] then None
      else (case r1 of
              c1 # c2 # r2 \<Rightarrow>
                if c1 = CHR ''='' \<and> c2 = dq then
                  (let v = takeWhile (\<lambda>c. c \<noteq> dq) r2; r3 = dropWhile (\<lambda>c. c \<noteq> dq) r2 in
                   if v = [] then None
                   else (case r3 of [] \<Rightarrow> None | q # r4 \<Rightarrow> Some (key, v, r4)))
                else None
            | _ \<Rightarrow> None))"

lemma match_here_shorter:
  assumes "match_here s = Some (k, v, rest)"
  shows "length rest < length s"
proof -
  have a: "length (dropWhile P xs) \<le> length xs" for P and xs :: string
    by (induction xs) auto
  from assms obtain r2 r4 q where
    r1: "dropWhile is_word s = CHR ''='' # dq # r2" and
    r3: "dropWhile (\<lambda>c. c \<noteq> dq) r2 = q # r4" and rest: "rest = r4"
    by (auto simp: match_here_def Let_def split: if_splits list.splits)
  have "length r4 < length r2"
    using a [of "\<lambda>c. c \<noteq> dq" r2] r3 by simp
  moreover have "length r2 < length s"
    using a [of is_word s] r1 by simp
  ultimately show ?thesis using rest by simp
qed

text \<open>
  \<^verbatim>\<open>re.finditer\<close>: scan from the left; after a match continue behind it, after a
  failed attempt move one character on.
\<close>

function finditer :: "string \<Rightarrow> (string \<times> string) list" where
  "finditer [] = []"
| "finditer (c # cs) =
     (case match_here (c # cs) of
        Some (k, v, rest) \<Rightarrow> (k, v) # finditer rest
      | None \<Rightarrow> finditer cs)"
  by pat_completeness auto
termination
  by (relation "measure length") (auto dest: match_here_shorter)

definition parse_blkid_params :: "string \<Rightarrow> (string \<rightharpoonup> string)" where
  "parse_blkid_params params_str =
     fold (\<lambda>(key, val) params. params(key \<mapsto> val)) (finditer params_str) Map.empty"

text \<open>
  The loop of \<^verbatim>\<open>parse_blkid\<close> over the lines, with its accumulator \<^verbatim>\<open>blkid\<close>;
  \<^verbatim>\<open>parts[1]\<close> raises \<^verbatim>\<open>IndexError\<close> on a line without the separator.
\<close>

fun parse_blkid_lines ::
  "(string \<rightharpoonup> (string \<rightharpoonup> string)) \<Rightarrow> string list \<Rightarrow> error + (string \<rightharpoonup> (string \<rightharpoonup> string))" where
  "parse_blkid_lines blkid [] = Inr blkid"
| "parse_blkid_lines blkid (line # lines) =
     (if line = [] then parse_blkid_lines blkid lines
      else (case split_on '': '' line of
              blk # params_str # _ \<Rightarrow>
                parse_blkid_lines (blkid(blk \<mapsto> parse_blkid_params params_str)) lines
            | _ \<Rightarrow> Inl IndexError))"

definition parse_blkid :: "string \<Rightarrow> error + (string \<rightharpoonup> (string \<rightharpoonup> string))" where
  "parse_blkid blkid_str = parse_blkid_lines Map.empty (split_on [nl] blkid_str)"

section \<open>Effects\<close>

text \<open>
  Every call the program makes to the operating system, to a subprocess, to the clock or
  to the log is an \<open>event\<close>; the \<open>trace\<close> of a state is the list of events so far, in
  order.  A log event holds the level and the message template of the source, not the
  interpolated values.  What the outside world answers is not decided by the program: it
  is the environment \<open>env\<close>, whose every answer may depend on the whole history of
  events before the call.  The program's own mutable data is the module-level list
  \<^verbatim>\<open>_mounts\<close>.
\<close>

datatype level = DEBUG | INFO

datatype event =
    Exec "string list" bool "string option"
  | Getsize string
  | Exists string
  | Listdir string
  | Makedirs string
  | Rmtree string
  | Remove string
  | Move string string
  | Getcwd
  | Chdir string
  | Abspath string
  | Sleep nat
  | UpdateKey "string option"
  | Log level string

datatype proc_result = Exited int string | SpawnFailed

record env =
  env_subprocess :: "event list \<Rightarrow> string list \<Rightarrow> string option \<Rightarrow> proc_result"
  env_getsize :: "event list \<Rightarrow> string \<Rightarrow> nat option"
  env_exists :: "event list \<Rightarrow> string \<Rightarrow> bool"
  env_listdir :: "event list \<Rightarrow> string \<Rightarrow> string list option"
  env_makedirs :: "event list \<Rightarrow> string \<Rightarrow> bool"
  env_remove :: "event list \<Rightarrow> string \<Rightarrow> bool"
  env_move :: "event list \<Rightarrow> string \<Rightarrow> string \<Rightarrow> bool"
  env_getcwd :: "event list \<Rightarrow> string"
  env_chdir :: "event list \<Rightarrow> string \<Rightarrow> bool"
  env_abspath :: "event list \<Rightarrow> string \<Rightarrow> string"
  env_update_key :: "event list \<Rightarrow> string option \<Rightarrow> bool"
  env_hash :: "int list \<Rightarrow> int"
  env_stopped :: "event list \<Rightarrow> bool"

record state =
  trace :: "event list"
  mounts :: "string list"

type_synonym 'a action = "state \<Rightarrow> (error + 'a) \<times> state"

definition ret :: "'a \<Rightarrow> 'a action" where
  "ret x = (\<lambda>s. (Inr x, s))"

definition raise :: "error \<Rightarrow> 'a action" where
  "raise e = (\<lambda>s. (Inl e, s))"

definition lift :: "error + 'a \<Rightarrow> 'a action" where
  "lift r = (\<lambda>s. (r, s))"

definition bnd :: "'a action \<Rightarrow> ('a \<Rightarrow> 'b action) \<Rightarrow> 'b action" where
  "bnd m f = (\<lambda>s. case m s of (Inl e, s') \<Rightarrow> (Inl e, s') | (Inr x, s') \<Rightarrow> f x s')"

text \<open>\<^verbatim>\<open>try: m except Exception as e: handler\<close>: every \<open>error\<close> is an \<^verbatim>\<open>Exception\<close>.\<close>

definition try_except :: "'a action \<Rightarrow> (error \<Rightarrow> 'a action) \<Rightarrow> 'a action" where
  "try_except m handler = (\<lambda>s. case m s of (Inl e, s') \<Rightarrow> handler e s' | (Inr x, s') \<Rightarrow> (Inr x, s'))"

text \<open>\<^verbatim>\<open>except subprocess.CalledProcessError\<close>: any other exception passes through.\<close>

definition try_except_called_process_error :: "'a action \<Rightarrow> (error \<Rightarrow> 'a action) \<Rightarrow> 'a action" where
  "try_except_called_process_error m handler =
     (\<lambda>s. case m s of
        (Inl (CalledProcessError c), s') \<Rightarrow> handler (CalledProcessError c) s'
      | (r, s') \<Rightarrow> (r, s'))"

text \<open>A call to the outside: the answer is read off the history before the call.\<close>

definition perform :: "event \<Rightarrow> (event list \<Rightarrow> error + 'a) \<Rightarrow> 'a action" where
  "perform ev answer = (\<lambda>s. (answer (trace s), s\<lparr>trace := trace s @ [ev]\<rparr>))"

definition ok_or_oserror :: "bool \<Rightarrow> error + unit" where
  "ok_or_oserror ok = (if ok then Inr () else Inl OSError)"

definition some_or_oserror :: "'a option \<Rightarrow> error + 'a" where
  "some_or_oserror r = (case r of None \<Rightarrow> Inl OSError | Some x \<Rightarrow> Inr x)"

definition log :: "level \<Rightarrow> string \<Rightarrow> unit action" where
  "log lvl msg = perform (Log lvl msg) (\<lambda>h. Inr ())"

definition sleep :: "nat \<Rightarrow> unit action" where
  "sleep seconds = perform (Sleep seconds) (\<lambda>h. Inr ())"

definition os_getsize :: "env \<Rightarrow> string \<Rightarrow> nat action" where
  "os_getsize env p = perform (Getsize p) (\<lambda>h. some_or_oserror (env_getsize env h p))"

definition path_exists :: "env \<Rightarrow> string \<Rightarrow> bool action" where
  "path_exists env p = perform (Exists p) (\<lambda>h. Inr (env_exists env h p))"

definition os_listdir :: "env \<Rightarrow> string \<Rightarrow> string list action" where
  "os_listdir env p = perform (Listdir p) (\<lambda>h. some_or_oserror (env_listdir env h p))"

definition os_makedirs :: "env \<Rightarrow> string \<Rightarrow> unit action" where
  "os_makedirs env p = perform (Makedirs p) (\<lambda>h. ok_or_oserror (env_makedirs env h p))"

text \<open>\<^verbatim>\<open>shutil.rmtree(p, ignore_errors=True)\<close> does not raise.\<close>

definition shutil_rmtree :: "string \<Rightarrow> unit action" where
  "shutil_rmtree p = perform (Rmtree p) (\<lambda>h. Inr ())"

definition os_remove :: "env \<Rightarrow> string \<Rightarrow> unit action" where
  "os_remove env p = perform (Remove p) (\<lambda>h. ok_or_oserror (env_remove env h p))"

definition shutil_move :: "env \<Rightarrow> string \<Rightarrow> string \<Rightarrow> unit action" where
  "shutil_move env src dst = perform (Move src dst) (\<lambda>h. ok_or_oserror (env_move env h src dst))"

definition os_getcwd :: "env \<Rightarrow> string action" where
  "os_getcwd env = perform Getcwd (\<lambda>h. Inr (env_getcwd env h))"

definition os_chdir :: "env \<Rightarrow> string \<Rightarrow> unit action" where
  "os_chdir env p = perform (Chdir p) (\<lambda>h. ok_or_oserror (env_chdir env h p))"

definition os_path_abspath :: "env \<Rightarrow> string \<Rightarrow> string action" where
  "os_path_abspath env p = perform (Abspath p) (\<lambda>h. Inr (env_abspath env h p))"

text \<open>
  \<^verbatim>\<open>updateMakeMkvKey\<close> is imported from the module \<^verbatim>\<open>makemkvkey\<close>; whether it raises
  is the environment's answer.
\<close>

definition updateMakeMkvKey :: "env \<Rightarrow> string option \<Rightarrow> unit action" where
  "updateMakeMkvKey env settings_path =
     perform (UpdateKey settings_path) (\<lambda>h. ok_or_oserror (env_update_key env h settings_path))"

section \<open>Process Runner\<close>

text \<open>\<^verbatim>\<open>iter(pipe.readline, b'')\<close>: the output cut behind every newline.\<close>

fun readlines_from :: "string \<Rightarrow> string \<Rightarrow> string list" where
  "readlines_from cur [] = (if cur = [] then [] else [cur])"
| "readlines_from cur (c # cs) =
     (if c = nl then (cur @ [c]) # readlines_from [] cs else readlines_from (cur @ [c]) cs)"

fun log_subprocess_output :: "string list \<Rightarrow> unit action" where
  "log_subprocess_output [] = ret ()"
| "log_subprocess_output (line # lines) =
     bnd (log INFO ''SUBPROCESS: %r'') (\<lambda>_. log_subprocess_output lines)"

text \<open>
  \<^verbatim>\<open>execute(cmd, capture, cwd)\<close>.  Capturing, \<^verbatim>\<open>check_output\<close> raises
  \<^verbatim>\<open>CalledProcessError\<close> on a nonzero exit and the output is returned stripped;
  streaming, every line is logged and a nonzero exit raises \<^verbatim>\<open>Exception(exitcode)\<close>.
  A command that cannot be started raises \<^verbatim>\<open>OSError\<close> in both modes.
\<close>

definition execute :: "env \<Rightarrow> string list \<Rightarrow> bool \<Rightarrow> string option \<Rightarrow> string option action" where
  "execute env cmd capture cwd =
     bnd (perform (Exec cmd capture cwd)
            (\<lambda>h. case env_subprocess env h cmd cwd of
                    SpawnFailed \<Rightarrow> Inl OSError
                  | Exited exitcode out \<Rightarrow> Inr (exitcode, out)))
       (\<lambda>(exitcode, out).
          if capture then
            (if exitcode \<noteq> 0 then raise (CalledProcessError exitcode) else ret (Some (strip out)))
          else
            bnd (log_subprocess_output (readlines_from [] out)) (\<lambda>_.
            if exitcode \<noteq> 0 then raise (ExitCodeException exitcode) else ret None))"

section \<open>Mount Manager\<close>

definition eject :: "env \<Rightarrow> string \<Rightarrow> unit action" where
  "eject env drv = bnd (execute env [''sudo'', ''eject'', ''-F'', drv] True None) (\<lambda>_. ret ())"

definition mounts_append :: "string \<Rightarrow> unit action" where
  "mounts_append mnt_path = (\<lambda>s. (Inr (), s\<lparr>mounts := mounts s @ [mnt_path]\<rparr>))"

definition mount :: "env \<Rightarrow> string \<Rightarrow> string \<Rightarrow> unit action" where
  "mount env drv mnt_path =
     bnd (os_makedirs env mnt_path) (\<lambda>_.
     bnd (execute env [''sudo'', ''mount'', drv, mnt_path] True None) (\<lambda>_.
     mounts_append mnt_path))"

definition unmount :: "env \<Rightarrow> string \<Rightarrow> unit action" where
  "unmount env mnt_path = bnd (execute env [''sudo'', ''umount'', mnt_path] True None) (\<lambda>_. ret ())"

fun unmount_each :: "env \<Rightarrow> string list \<Rightarrow> unit action" where
  "unmount_each env [] = ret ()"
| "unmount_each env (mnt # mnts) = bnd (unmount env mnt) (\<lambda>_. unmount_each env mnts)"

definition mount_cleanup :: "env \<Rightarrow> unit action" where
  "mount_cleanup env = (\<lambda>s. unmount_each env (mounts s) s)"

section \<open>Transcode Watcher\<close>

record TranscodeThread =
  wip_root :: string
  out_root :: string
  ffmpeg_args :: "string list"
  interval :: nat

text \<open>The constructor: \<^verbatim>\<open>LoopThread.__init__\<close> is called without an interval, so it is 5.\<close>

definition default_ffmpeg_args :: "string list" where
  "default_ffmpeg_args =
     [''-c:v'', ''libx264'', ''-crf'', ''18'', ''-map'', ''0'', ''-c:a'', ''copy'', ''-c:s'', ''copy'']"

definition TranscodeThread_init :: "string \<Rightarrow> string \<Rightarrow> string list option \<Rightarrow> TranscodeThread" where
  "TranscodeThread_init wip out args =
     \<lparr>wip_root = wip, out_root = out,
      ffmpeg_args = (case args of None \<Rightarrow> default_ffmpeg_args | Some a \<Rightarrow> a),
      interval = 5\<rparr>"

definition basename :: "string \<Rightarrow> string" where
  "basename p = rev (takeWhile (\<lambda>c. c \<noteq> CHR ''/'') (rev p))"

text \<open>
  \<^verbatim>\<open>os.path.splitext(p)[0]\<close>: cut before the last dot of the file name, unless only
  dots stand before it.
\<close>

definition splitext_root :: "string \<Rightarrow> string" where
  "splitext_root p =
     (let fname = basename p;
          stem = rev (drop 1 (dropWhile (\<lambda>c. c \<noteq> CHR ''.'') (rev fname)))
      in if dropWhile (\<lambda>c. c = CHR ''.'') stem \<noteq> []
         then take (length p - length fname + length stem) p
         else p)"

definition transcode_file :: "env \<Rightarrow> TranscodeThread \<Rightarrow> string \<Rightarrow> string \<Rightarrow> unit action" where
  "transcode_file env self file_path out_path =
     bnd (os_getsize env file_path) (\<lambda>size1.
     bnd (log DEBUG ''size1: {size1}'') (\<lambda>_.
     if size1 < 1024 * 1024 then
       bnd (log DEBUG ''File {file_path} is less than 1MB'') (\<lambda>_. ret ())
     else
     bnd (sleep 30) (\<lambda>_.
     bnd (os_getsize env file_path) (\<lambda>size2.
     bnd (log DEBUG ''size2: {size2}'') (\<lambda>_.
     if size1 \<noteq> size2 then
       bnd (log DEBUG ''File {file_path} is not done being written (file size changed)'') (\<lambda>_. ret ())
     else
     bnd (os_makedirs env out_path) (\<lambda>_.
     let file_name = basename file_path;
         file_no_ext = splitext_root file_name;
         out_file_path = out_path @ ''/'' @ file_no_ext @ ''.mp4'';
         cmd = [''ffmpeg'', ''-i'', file_path] @ ffmpeg_args self @ [out_file_path]
     in
     bnd (log DEBUG ''Executing: {cmd}'') (\<lambda>_.
     bnd (execute env cmd False None) (\<lambda>_.
     bnd (log DEBUG ''Removing file: {file_path}'') (\<lambda>_.
     os_remove env file_path)))))))))"

text \<open>The body of the loop over \<^verbatim>\<open>files\<close> in \<^verbatim>\<open>transcode_disc\<close>.\<close>

definition transcode_attempt :: "env \<Rightarrow> TranscodeThread \<Rightarrow> string \<Rightarrow> string \<Rightarrow> string \<Rightarrow> unit action" where
  "transcode_attempt env self wip out_path file =
     (let file_path = wip @ ''/'' @ file in
      try_except (transcode_file env self file_path out_path)
        (\<lambda>e. bnd (log DEBUG ''transcode_file error: {e}'') (\<lambda>_.
              log DEBUG ''Maybe MakeMKV is still ripping the disc?'')))"

fun transcode_files :: "env \<Rightarrow> TranscodeThread \<Rightarrow> string \<Rightarrow> string \<Rightarrow> string list \<Rightarrow> unit action" where
  "transcode_files env self wip out_path [] = ret ()"
| "transcode_files env self wip out_path (file # files) =
     bnd (transcode_attempt env self wip out_path file) (\<lambda>_.
     transcode_files env self wip out_path files)"

definition transcode_disc :: "env \<Rightarrow> TranscodeThread \<Rightarrow> string \<Rightarrow> unit action" where
  "transcode_disc env self disc_name =
     (let wip_dvd_root = wip_root self @ ''/dvd'';
          wip = wip_dvd_root @ ''/'' @ disc_name;
          out_path = out_root self @ ''/'' @ disc_name
      in
      bnd (os_listdir env wip) (\<lambda>files.
      bnd (log DEBUG ''Files: {files}'') (\<lambda>_.
      transcode_files env self wip out_path files)))"

fun transcode_discs :: "env \<Rightarrow> TranscodeThread \<Rightarrow> string list \<Rightarrow> unit action" where
  "transcode_discs env self [] = ret ()"
| "transcode_discs env self (disc_name # disc_names) =
     bnd (log DEBUG ''Transcoding disc: {disc_name}'') (\<lambda>_.
     bnd (transcode_disc env self disc_name) (\<lambda>_.
     transcode_discs env self disc_names))"

definition TranscodeThread_loop_step :: "env \<Rightarrow> TranscodeThread \<Rightarrow> unit action" where
  "TranscodeThread_loop_step env self =
     bnd (log DEBUG ''Transcode loop step'') (\<lambda>_.
     let wip_dvd_root = wip_root self @ ''/dvd'' in
     bnd (os_listdir env wip_dvd_root) (\<lambda>disc_names.
     transcode_discs env self disc_names))"

section \<open>Rip Orchestrator\<close>

text \<open>
  A \<^verbatim>\<open>RipThread\<close> object: the nine attributes its constructor assigns, and
  \<open>other_attrs\<close> for any further instance attribute.  Neither the constructor nor any
  other statement of the program assigns one, and the base classes
  \<^verbatim>\<open>StoppableThread\<close> and \<^verbatim>\<open>threading.Thread\<close> have no attribute named
  \<^verbatim>\<open>wip_root\<close> or \<^verbatim>\<open>out_root\<close>.
\<close>

record RipThread =
  drive :: string
  wip_path :: string
  dvd_path :: string
  redbook_path :: string
  iso_path :: string
  bluray_path :: string
  skip_eject :: bool
  makemkv_update_key :: bool
  makemkv_settings_path :: "string option"
  other_attrs :: "string \<rightharpoonup> string"

definition RipThread_init ::
  "string \<Rightarrow> string \<Rightarrow> string \<Rightarrow> string \<Rightarrow> string \<Rightarrow> string \<Rightarrow> bool \<Rightarrow> bool \<Rightarrow> string option \<Rightarrow> RipThread" where
  "RipThread_init drive' wip_path' dvd_path' redbook_path' iso_path' bluray_path'
       skip_eject' makemkv_update_key' makemkv_settings_path' =
     \<lparr>drive = drive', wip_path = wip_path', dvd_path = dvd_path',
      redbook_path = redbook_path', iso_path = iso_path', bluray_path = bluray_path',
      skip_eject = skip_eject', makemkv_update_key = makemkv_update_key',
      makemkv_settings_path = makemkv_settings_path', other_attrs = Map.empty\<rparr>"

text \<open>Reading an instance attribute that is not one of the nine, as \<^verbatim>\<open>self.wip_root\<close>.\<close>

definition instance_attr :: "RipThread \<Rightarrow> string \<Rightarrow> error + string" where
  "instance_attr self name =
     (case other_attrs self name of None \<Rightarrow> Inl (AttributeError name) | Some v \<Rightarrow> Inr v)"

definition dict_get :: "(string \<rightharpoonup> 'v) \<Rightarrow> string \<Rightarrow> error + 'v" where
  "dict_get d key = (case d key of None \<Rightarrow> Inl (KeyError key) | Some v \<Rightarrow> Inr v)"

definition digit_char :: "nat \<Rightarrow> char" where
  "digit_char d = ''0123456789abcdef'' ! d"

fun dec_of_nat :: "nat \<Rightarrow> string" where
  "dec_of_nat n = (if n < 10 then [digit_char n] else dec_of_nat (n div 10) @ [digit_char (n mod 10)])"

fun hex_of_nat :: "nat \<Rightarrow> string" where
  "hex_of_nat n = (if n < 16 then [digit_char n] else hex_of_nat (n div 16) @ [digit_char (n mod 16)])"

declare dec_of_nat.simps [simp del]

declare hex_of_nat.simps [simp del]

definition str_of_int :: "int \<Rightarrow> string" where
  "str_of_int i = (if i < 0 then CHR ''-'' # dec_of_nat (nat (- i)) else dec_of_nat (nat i))"

text \<open>\<^verbatim>\<open>int(re.search(r'\d+', s).group(0))\<close>: the first run of digits, or no match.\<close>

definition first_number :: "string \<Rightarrow> error + int" where
  "first_number s =
     (let run = takeWhile is_digit (dropWhile (\<lambda>c. \<not> is_digit c) s) in
      if run = [] then Inl (AttributeError ''group'')
      else (case py_int run of None \<Rightarrow> Inl ValueError | Some n \<Rightarrow> Inr n))"

definition rip_dvd :: "env \<Rightarrow> RipThread \<Rightarrow> (string \<rightharpoonup> string) \<Rightarrow> unit action" where
  "rip_dvd env self blkid_params =
     bnd (lift (dict_get blkid_params ''LABEL'')) (\<lambda>label.
     bnd (lift (dict_get blkid_params ''UUID'')) (\<lambda>uuid.
     let disc_name = label @ ''-'' @ uuid in
     bnd (lift (instance_attr self ''wip_root'')) (\<lambda>self_wip_root.
     let wip = self_wip_root @ ''/dvd/'' @ disc_name in
     bnd (lift (instance_attr self ''out_root'')) (\<lambda>self_out_root.
     let out_path = self_out_root @ ''/'' @ disc_name in
     bnd (path_exists env out_path) (\<lambda>present.
     if present then
       bnd (log INFO ''Output path exists: {out_path}'') (\<lambda>_. ret ())
     else
     bnd (if makemkv_update_key self
          then updateMakeMkvKey env (makemkv_settings_path self) else ret ()) (\<lambda>_.
     bnd (log INFO ''Ripping DVD: {disc_name}'') (\<lambda>_.
     bnd (shutil_rmtree wip) (\<lambda>_.
     bnd (os_makedirs env wip) (\<lambda>_.
     bnd (os_makedirs env out_path) (\<lambda>_.
     bnd (lift (first_number (drive self))) (\<lambda>drive_id.
     bnd (os_path_abspath env wip) (\<lambda>o_path_abs.
     let cmd = [''makemkvcon'', ''mkv'', ''disc:'' @ str_of_int drive_id, ''all'', o_path_abs] in
     bnd (log DEBUG ''Executing: {cmd}'') (\<lambda>_.
     bnd (execute env cmd False None) (\<lambda>_. ret ()))))))))))))))"

definition rip_redbook :: "env \<Rightarrow> RipThread \<Rightarrow> string \<Rightarrow> unit action" where
  "rip_redbook env self cdp_str =
     bnd (lift (cdparanoia_hash (env_hash env) cdp_str)) (\<lambda>h.
     let cdp_hash = hex_of_nat (nat \<bar>h\<bar>) in
     bnd (lift (instance_attr self ''out_root'')) (\<lambda>out_dir_path.
     bnd (os_makedirs env out_dir_path) (\<lambda>_.
     bnd (os_listdir env out_dir_path) (\<lambda>folders.
     case find (\<lambda>folder. endswith folder cdp_hash) folders of
       Some folder \<Rightarrow> bnd (log INFO ''Redbook already ripped: {folder}'') (\<lambda>_. ret ())
     | None \<Rightarrow>
     bnd (log INFO ''Ripping redbook: {cdp_hash}'') (\<lambda>_.
     bnd (lift (instance_attr self ''wip_root'')) (\<lambda>self_wip_root.
     let wip_dir_path = self_wip_root @ ''/redbook'' in
     bnd (os_makedirs env wip_dir_path) (\<lambda>_.
     bnd (os_getcwd env) (\<lambda>pwd.
     bnd (os_chdir env wip_dir_path) (\<lambda>_.
     let cmd = [''abcde'', ''-d'', drive self, ''-o'', ''flac'', ''-B'', ''-N''] in
     bnd (execute env cmd False None) (\<lambda>_.
     bnd (os_chdir env pwd) (\<lambda>_.
     bnd (os_listdir env wip_dir_path) (\<lambda>albums.
     case albums of
       [] \<Rightarrow> raise IndexError
     | album_name # _ \<Rightarrow>
         let out_path = out_dir_path @ ''/'' @ album_name @ ''-'' @ cdp_hash in
         shutil_move env (wip_dir_path @ ''/'' @ album_name) out_path))))))))))))"

text \<open>
  In \<^verbatim>\<open>rip_data_disc\<close> the list literal has no comma between \<^verbatim>\<open>"dd"\<close> and
  \<^verbatim>\<open>f"if={self.drive}"\<close>: Python joins adjacent string literals, so the first
  element of the command is their concatenation.
\<close>

definition rip_data_disc :: "env \<Rightarrow> RipThread \<Rightarrow> (string \<rightharpoonup> string) \<Rightarrow> unit action" where
  "rip_data_disc env self blkid_params =
     bnd (lift (dict_get blkid_params ''LABEL'')) (\<lambda>label.
     bnd (lift (dict_get blkid_params ''UUID'')) (\<lambda>uuid.
     let file_name = label @ ''-'' @ uuid @ ''.iso'' in
     bnd (lift (instance_attr self ''wip_root'')) (\<lambda>self_wip_root.
     let wip_dir_path = self_wip_root @ ''/iso'' in
     bnd (lift (instance_attr self ''out_root'')) (\<lambda>out_dir_path.
     let wip = wip_dir_path @ ''/'' @ file_name;
         out_path = out_dir_path @ ''/'' @ file_name in
     bnd (path_exists env out_path) (\<lambda>present.
     if present then
       bnd (log INFO ''Output path exists: {out_path}'') (\<lambda>_. ret ())
     else
     bnd (log INFO ''Ripping data disc: {file_name}'') (\<lambda>_.
     bnd (os_makedirs env wip_dir_path) (\<lambda>_.
     bnd (os_makedirs env out_dir_path) (\<lambda>_.
     let cmd = [''dd'' @ (''if='' @ drive self), ''of='' @ out_path, ''status=progress''] in
     bnd (log DEBUG ''Executing: {cmd}'') (\<lambda>_.
     bnd (os_getcwd env) (\<lambda>cwd.
     bnd (execute env cmd False (Some cwd)) (\<lambda>_.
     shutil_move env wip out_path)))))))))))"

text \<open>
  \<^verbatim>\<open>RipThread.loop_step\<close>, in the three parts of its text: the block probe, the branch
  taken when the probe gave nothing, and the rest.
\<close>

definition probe_blkid :: "env \<Rightarrow> RipThread \<Rightarrow> string option action" where
  "probe_blkid env self =
     try_except (execute env [''blkid'', drive self] True None)
       (\<lambda>e. bnd (log DEBUG ''blkid error: %s'') (\<lambda>_. ret None))"

definition loop_step_no_blkid :: "env \<Rightarrow> RipThread \<Rightarrow> unit action" where
  "loop_step_no_blkid env self =
     bnd (log DEBUG ''No blkid output'') (\<lambda>_.
     try_except_called_process_error
       (bnd (execute env [''cdparanoia'', ''-sQ''] True None) (\<lambda>cdp_text.
        bnd (log INFO ''Redbook disc detected'') (\<lambda>_.
        bnd (case cdp_text of
               None \<Rightarrow> raise (AttributeError ''split'')
             | Some cdp_str \<Rightarrow> rip_redbook env self cdp_str) (\<lambda>_.
        if \<not> skip_eject self then eject env (drive self) else ret ()))))
       (\<lambda>e. log DEBUG ''No disc detected''))"

definition loop_step_blkid :: "env \<Rightarrow> RipThread \<Rightarrow> string \<Rightarrow> unit action" where
  "loop_step_blkid env self blkid_str =
     bnd (log DEBUG ''blkid_str: {blkid_str}'') (\<lambda>_.
     bnd (lift (parse_blkid blkid_str)) (\<lambda>blkid.
     bnd (lift (dict_get blkid (drive self))) (\<lambda>blkid_params.
     bnd (log DEBUG ''params: {blkid_params}'') (\<lambda>_.
     let mnt_path = ''./mnt'' @ drive self in
     bnd (try_except (mount env (drive self) mnt_path)
            (\<lambda>e. log DEBUG ''mount error: %s'')) (\<lambda>_.
     bnd (path_exists env (mnt_path @ ''/VIDEO_TS'')) (\<lambda>is_dvd.
     bnd (if is_dvd then rip_dvd env self blkid_params
          else rip_data_disc env self blkid_params) (\<lambda>_.
     if \<not> skip_eject self then eject env (drive self) else ret ())))))))"

definition RipThread_loop_step :: "env \<Rightarrow> RipThread \<Rightarrow> unit action" where
  "RipThread_loop_step env self =
     bnd (probe_blkid env self) (\<lambda>blkid_str.
     case blkid_str of
       None \<Rightarrow> loop_step_no_blkid env self
     | Some str \<Rightarrow>
         if length str = 0 then loop_step_no_blkid env self
         else loop_step_blkid env self str)"

section \<open>Threads\<close>

text \<open>
  The class statements of the program, with \<^verbatim>\<open>threading.Thread\<close> at the root:
  \<^verbatim>\<open>StoppableThread(threading.Thread)\<close>, \<^verbatim>\<open>LoopThread(StoppableThread)\<close>,
  \<^verbatim>\<open>TranscodeThread(LoopThread)\<close> and \<^verbatim>\<open>RipThread(StoppableThread)\<close>.
\<close>

datatype cls = C_Thread | C_StoppableThread | C_LoopThread | C_TranscodeThread | C_RipThread

fun base_class :: "cls \<Rightarrow> cls option" where
  "base_class C_Thread = None"
| "base_class C_StoppableThread = Some C_Thread"
| "base_class C_LoopThread = Some C_StoppableThread"
| "base_class C_TranscodeThread = Some C_LoopThread"
| "base_class C_RipThread = Some C_StoppableThread"

text \<open>The method resolution order: the class, then its bases (four steps reach the root).\<close>

fun mro_from :: "nat \<Rightarrow> cls \<Rightarrow> cls list" where
  "mro_from 0 c = [c]"
| "mro_from (Suc n) c = (case base_class c of None \<Rightarrow> [c] | Some b \<Rightarrow> c # mro_from n b)"

definition mro :: "cls \<Rightarrow> cls list" where
  "mro c = mro_from 4 c"

text \<open>
  The classes whose body defines \<^verbatim>\<open>run\<close>: \<^verbatim>\<open>LoopThread\<close> (the polling loop) and
  \<^verbatim>\<open>threading.Thread\<close> itself.
\<close>

datatype run_method = Thread_run | LoopThread_run

fun class_run :: "cls \<Rightarrow> run_method option" where
  "class_run C_Thread = Some Thread_run"
| "class_run C_LoopThread = Some LoopThread_run"
| "class_run c = None"

definition resolve_run :: "cls \<Rightarrow> run_method" where
  "resolve_run c = (case List.map_filter class_run (mro c) of [] \<Rightarrow> Thread_run | m # _ \<Rightarrow> m)"

text \<open>
  \<^verbatim>\<open>LoopThread.run\<close>: while the stop event is not set, one \<^verbatim>\<open>loop_step\<close> and one
  sleep of \<^verbatim>\<open>self._interval\<close> seconds.  The loop may run forever: the result is
  \<open>None\<close> when it never returns.  The interval is \<open>None\<close> for an object without the
  attribute \<^verbatim>\<open>_interval\<close>.
\<close>

partial_function (option) loop_run ::
  "unit action \<Rightarrow> (event list \<Rightarrow> bool) \<Rightarrow> nat option \<Rightarrow> state \<Rightarrow> ((error + unit) \<times> state) option" where
  "loop_run step stopped ival s =
     (if stopped (trace s) then Some (Inr (), s)
      else (case step s of
              (Inl e, s') \<Rightarrow> Some (Inl e, s')
            | (Inr u, s') \<Rightarrow>
                (case ival of
                   None \<Rightarrow> Some (Inl (AttributeError ''_interval''), s')
                 | Some seconds \<Rightarrow> loop_run step stopped ival (snd (sleep seconds s')))))"

datatype thread_obj = TranscodeObj TranscodeThread | RipObj RipThread

fun class_of :: "thread_obj \<Rightarrow> cls" where
  "class_of (TranscodeObj t) = C_TranscodeThread"
| "class_of (RipObj r) = C_RipThread"

fun loop_step :: "env \<Rightarrow> thread_obj \<Rightarrow> unit action" where
  "loop_step env (TranscodeObj t) = TranscodeThread_loop_step env t"
| "loop_step env (RipObj r) = RipThread_loop_step env r"

fun interval_attr :: "thread_obj \<Rightarrow> nat option" where
  "interval_attr (TranscodeObj t) = Some (interval t)"
| "interval_attr (RipObj r) = None"

text \<open>
  What a started thread executes: the \<^verbatim>\<open>run\<close> its class resolves to.
  \<^verbatim>\<open>threading.Thread.run\<close> calls the target given to the constructor, and
  \<^verbatim>\<open>StoppableThread.__init__\<close> gives none, so it returns at once.
\<close>

definition thread_run :: "env \<Rightarrow> thread_obj \<Rightarrow> state \<Rightarrow> ((error + unit) \<times> state) option" where
  "thread_run env obj s =
     (case resolve_run (class_of obj) of
        LoopThread_run \<Rightarrow> loop_run (loop_step env obj) (env_stopped env) (interval_attr obj) s
      | Thread_run \<Rightarrow> Some (Inr (), s))"

section \<open>Reading traces\<close>

text \<open>The events an action adds to the trace when it starts in state \<open>s\<close>.\<close>

definition events_of :: "'a action \<Rightarrow> state \<Rightarrow> event list" where
  "events_of m s = drop (length (trace s)) (trace (snd (m s)))"

fun is_exec :: "event \<Rightarrow> bool" where
  "is_exec (Exec cmd capture cwd) = True"
| "is_exec e = False"


fun is_remove :: "event \<Rightarrow> bool" where
  "is_remove (Remove p) = True"
| "is_remove e = False"

text \<open>
  \<open>yields P Q m\<close>: from every state, \<open>m\<close> only appends events to the trace, each of
  them satisfies \<open>P\<close>, and a value it returns satisfies \<open>Q\<close>.
\<close>

definition yields :: "(event \<Rightarrow> bool) \<Rightarrow> ('a \<Rightarrow> bool) \<Rightarrow> 'a action \<Rightarrow> bool" where
  "yields P Q m \<longleftrightarrow>
     (\<forall>s. (\<exists>evs. trace (snd (m s)) = trace s @ evs \<and> list_all P evs)
          \<and> (case fst (m s) of Inl e \<Rightarrow> True | Inr x \<Rightarrow> Q x))"

section \<open>Concrete inputs\<close>




text \<open>
  Block-probe lines: the line of the specification's example, and a line whose label
  holds a colon followed by a space.
\<close>

definition blkid_example :: string where
  "blkid_example = ''/dev/sr0: LABEL='' @ quoted ''MY_DVD'' @ '' UUID='' @ quoted ''1234-5678''"

definition blkid_colon :: string where
  "blkid_colon = ''/dev/sr0: LABEL='' @ quoted ''A: B'' @ '' UUID='' @ quoted ''1''"

text \<open>
  An environment in which every call succeeds, every path exists and every command
  prints nothing; the initial state; the \<^verbatim>\<open>RipThread\<close> that the main program builds
  from the command-line defaults.
\<close>

definition env_ok :: env where
  "env_ok =
     \<lparr>env_subprocess = (\<lambda>h cmd cwd. Exited 0 []),
      env_getsize = (\<lambda>h p. Some 0),
      env_exists = (\<lambda>h p. True),
      env_listdir = (\<lambda>h p. Some []),
      env_makedirs = (\<lambda>h p. True),
      env_remove = (\<lambda>h p. True),
      env_move = (\<lambda>h a b. True),
      env_getcwd = (\<lambda>h. ''/''),
      env_chdir = (\<lambda>h p. True),
      env_abspath = (\<lambda>h p. p),
      env_update_key = (\<lambda>h p. True),
      env_hash = sum_list,
      env_stopped = (\<lambda>h. False)\<rparr>"

definition state0 :: state where
  "state0 = \<lparr>trace = [], mounts = []\<rparr>"

definition rip0 :: RipThread where
  "rip0 = RipThread_init ''/dev/sr0'' ''./wip'' ''./dvd'' ''./redbook'' ''./iso'' ''./bluray'' False False
            (Some ''~/.MakeMKV/settings.conf'')"


text \<open>
  The same environment with a disc in the drive: the block probe prints the line of the
  specification's example.  \<open>rip1\<close> is \<open>rip0\<close> with the two attributes the rip routines
  read set by hand, as no statement of the program does.  In \<open>env_absent\<close> no path exists.
\<close>

definition env_disc :: env where
  "env_disc = env_ok\<lparr>env_subprocess :=
     (\<lambda>h cmd cwd. if cmd = [''blkid'', ''/dev/sr0''] then Exited 0 blkid_example
                  else Exited 0 [])\<rparr>"

definition rip1 :: RipThread where
  "rip1 = rip0\<lparr>other_attrs := [''wip_root'' \<mapsto> ''./wip'', ''out_root'' \<mapsto> ''./dvd'']\<rparr>"

definition env_absent :: env where
  "env_absent = env_ok\<lparr>env_exists := (\<lambda>h p. False)\<rparr>"

definition params_example :: "string \<rightharpoonup> string" where
  "params_example = [''LABEL'' \<mapsto> ''MY_DVD'', ''UUID'' \<mapsto> ''1234-5678'']"

section \<open>The vocabulary of the idempotency claim\<close>







section \<open>Disc Identifier: theorems\<close>

lemmas text_defs =
  split_on_def split_ws_def nl_def dq_def quoted_def is_space_def is_word_def is_digit_def
  digit_val_def py_int_def unsigned_int_def slice_6_m2_def











text \<open>
  C6.  The program does not parse every line of the stated form: a value may hold
  spaces, and on a value that holds a colon followed by a space \<^verbatim>\<open>parse_blkid\<close>
  cuts the line inside the value and returns no key at all for the device.
\<close>

theorem parse_blkid_colon_space_in_value:
  "parse_blkid blkid_colon = Inr [''/dev/sr0'' \<mapsto> Map.empty]
   \<and> parse_blkid_params (drop 10 blkid_colon) = [''LABEL'' \<mapsto> ''A: B'', ''UUID'' \<mapsto> ''1'']"
  by (simp add: blkid_colon_def parse_blkid_def parse_blkid_params_def match_here_def text_defs)

section \<open>Reasoning about actions\<close>

lemmas action_defs =
  ret_def raise_def lift_def bnd_def try_except_def try_except_called_process_error_def
  perform_def ok_or_oserror_def some_or_oserror_def log_def sleep_def os_getsize_def
  path_exists_def os_listdir_def os_makedirs_def shutil_rmtree_def os_remove_def
  shutil_move_def os_getcwd_def os_chdir_def os_path_abspath_def updateMakeMkvKey_def



lemma yields_lift: "(\<And>x. r = Inr x \<Longrightarrow> Q x) \<Longrightarrow> yields P Q (lift r)"
  by (auto simp: yields_def lift_def split: sum.splits)







lemma log_subprocess_output_trace:
  "log_subprocess_output ls s =
     (Inr (), s\<lparr>trace := trace s @ replicate (length ls) (Log INFO ''SUBPROCESS: %r'')\<rparr>)"
proof (induction ls arbitrary: s)
  case Nil
  then show ?case by (simp add: ret_def)
next
  case (Cons l ls)
  then show ?case
    by (simp add: bnd_def log_def perform_def replicate_app_Cons_same)
qed


lemma yields_execute_streamed:
  assumes "P (Exec cmd False cwd)" and "P (Log INFO ''SUBPROCESS: %r'')"
  shows "yields P (\<lambda>r. True) (execute env cmd False cwd)"
  using assms
  by (auto simp: yields_def execute_def action_defs log_subprocess_output_trace list_all_iff
      split: proc_result.splits sum.splits)

















lemmas rip_defs =
  RipThread_loop_step_def probe_blkid_def loop_step_blkid_def loop_step_no_blkid_def
  rip_dvd_def rip_data_disc_def rip_redbook_def mount_def eject_def execute_def
  mounts_append_def instance_attr_def dict_get_def events_of_def

lemmas concrete_defs =
  env_disc_def env_absent_def env_ok_def rip1_def rip0_def RipThread_init_def state0_def
  params_example_def









section \<open>Mount Manager: theorems\<close>



section \<open>Rip routines: theorems\<close>

text \<open>
  C3, as stated, fails: an invocation does not always raise the attribute error.  For
  the parameters of a disc without a label, \<^verbatim>\<open>rip_dvd\<close> raises \<^verbatim>\<open>KeyError\<close>.
\<close>

theorem rip_dvd_raises_key_error:
  "rip_dvd env_ok rip0 [''UUID'' \<mapsto> ''1234-5678''] state0 = (Inl (KeyError ''LABEL''), state0)"
  by (simp add: rip_dvd_def dict_get_def action_defs)

text \<open>
  C3, amended.  On an object built by the constructor, every invocation of
  \<^verbatim>\<open>rip_dvd\<close>, \<^verbatim>\<open>rip_data_disc\<close> and \<^verbatim>\<open>rip_redbook\<close> raises before any event, so
  before the output-exists check and before any ripper: a \<^verbatim>\<open>KeyError\<close> when the label
  or the UUID is missing, the error of the fingerprint when the audio table is
  malformed, and otherwise the attribute error for \<^verbatim>\<open>wip_root\<close> (\<^verbatim>\<open>out_root\<close> in
  \<^verbatim>\<open>rip_redbook\<close>).  The state is unchanged.
\<close>

theorem rip_routines_always_raise:
  "rip_dvd env (RipThread_init d w dv rb io br se mk ms) params s =
     (Inl (case params ''LABEL'' of
             None \<Rightarrow> KeyError ''LABEL''
           | Some l \<Rightarrow> (case params ''UUID'' of
                          None \<Rightarrow> KeyError ''UUID''
                        | Some u \<Rightarrow> AttributeError ''wip_root'')), s)
   \<and> rip_data_disc env (RipThread_init d w dv rb io br se mk ms) params s =
     (Inl (case params ''LABEL'' of
             None \<Rightarrow> KeyError ''LABEL''
           | Some l \<Rightarrow> (case params ''UUID'' of
                          None \<Rightarrow> KeyError ''UUID''
                        | Some u \<Rightarrow> AttributeError ''wip_root'')), s)
   \<and> rip_redbook env (RipThread_init d w dv rb io br se mk ms) cdp_str s =
     (Inl (case cdparanoia_hash (env_hash env) cdp_str of
             Inl e \<Rightarrow> e
           | Inr h \<Rightarrow> AttributeError ''out_root''), s)"
  by (simp add: rip_dvd_def rip_data_disc_def rip_redbook_def RipThread_init_def
      instance_attr_def dict_get_def action_defs split: option.splits sum.splits)

text \<open>
  C10.  The program does not invoke \<^verbatim>\<open>dd\<close>.  On the object the main program builds,
  \<^verbatim>\<open>rip_data_disc\<close> raises the attribute error before the output-exists check.  On
  \<open>rip1\<close>, with no output file present, the command it runs has three elements, the
  first being \<^verbatim>\<open>ddif=/dev/sr0\<close>: the executable is not \<^verbatim>\<open>dd\<close> and no \<^verbatim>\<open>if=\<close>
  argument is passed.
\<close>

theorem rip_data_disc_runs_no_dd:
  "rip_data_disc env_absent rip0 params_example state0 = (Inl (AttributeError ''wip_root''), state0)
   \<and> filter is_exec (events_of (rip_data_disc env_absent rip1 params_example) state0) =
       [Exec [''ddif=/dev/sr0'', ''of=./dvd/MY_DVD-1234-5678.iso'', ''status=progress'']
          False (Some ''/'')]"
  by (simp add: rip_defs action_defs concrete_defs Let_def)

section \<open>Threads: theorems\<close>

lemma mro_RipThread: "mro C_RipThread = [C_RipThread, C_StoppableThread, C_Thread]"
  by (simp add: mro_def eval_nat_numeral)

lemma mro_TranscodeThread:
  "mro C_TranscodeThread = [C_TranscodeThread, C_LoopThread, C_StoppableThread, C_Thread]"
  by (simp add: mro_def eval_nat_numeral)

lemma transcode_thread_polls:
  "thread_run env (TranscodeObj t) s =
     loop_run (TranscodeThread_loop_step env t) (env_stopped env) (Some (interval t)) s"
  by (simp add: thread_run_def resolve_run_def mro_TranscodeThread List.map_filter_simps)

text \<open>
  C1.  The program does not do this: \<^verbatim>\<open>RipThread\<close> derives from
  \<^verbatim>\<open>StoppableThread\<close>, not from \<^verbatim>\<open>LoopThread\<close>, so the \<^verbatim>\<open>run\<close> of a started rip
  thread is the one of \<^verbatim>\<open>threading.Thread\<close>.  It returns at once, in every environment
  and whatever the stop event says: no poll cycle, no sleep, no event at all.
\<close>

theorem rip_thread_never_polls:
  "resolve_run C_RipThread = Thread_run
   \<and> thread_run env (RipObj self) s = Some (Inr (), s)"
  by (simp add: thread_run_def resolve_run_def mro_RipThread List.map_filter_simps)

end
